theory Spec2Isabelle
  imports Main
begin

section \<open>Values, errors and configuration mappings\<close>

text \<open>
  The wrapper \<^verbatim>\<open>CachedDataset\<close> of \<^verbatim>\<open>src/kedro/io/cached_dataset.py\<close> is embedded with
  explicit state passing. A Python call that may raise returns a pair: the outcome
  (\<open>Inl\<close> the exception, \<open>Inr\<close> the returned value) and the state as the call left it, so
  that what an aborted call has already mutated stays visible.
\<close>

datatype error = ValueError string | DatasetError string | OtherError string

text \<open>Values of a configuration mapping (parsed YAML), and other Python objects.\<close>

datatype cfg_value =
  CNone | CBool bool | CInt int | CStr string
  | CList "cfg_value list" | CDict "(string \<times> cfg_value) list"

type_synonym config = "string \<rightharpoonup> cfg_value"

datatype py_object = PyNone | PyInt int | PyStr string | PyList "py_object list"

text \<open>What \<^verbatim>\<open>_describe\<close> returns: a dictionary of printable entries.\<close>

datatype desc = DescNone | DescStr string | DescDict "(string \<times> desc) list"

text \<open>
  Modelled from the spec: the constant \<^verbatim>\<open>VERSIONED_FLAG_KEY\<close> of \<^verbatim>\<open>kedro.io.core\<close>,
  which is not among the sources. The spec calls it the reserved "versioned" key of a
  declarative configuration.
\<close>

definition VERSIONED_FLAG_KEY :: string where
  "VERSIONED_FLAG_KEY = ''versioned''"

text \<open>
  Modelled from the spec: the named tuple \<^verbatim>\<open>Version\<close> of \<^verbatim>\<open>kedro.io.core\<close>, the
  optional pair of a load and a save version identifier, each a string or unset. The
  constructor receives \<^verbatim>\<open>Version | None\<close>; a two-field tuple is always truthy, so
  \<^verbatim>\<open>if version:\<close> holds exactly when a pair is supplied.
\<close>

record Version =
  load :: "string option"
  save :: "string option"

section \<open>The delegate: any object with the data-resource contract\<close>

text \<open>
  The delegate is an arbitrary \<^verbatim>\<open>AbstractDataset\<close>. Its class is a parameter of the model:
  a table of methods over the delegate's own state \<open>'d\<close> (which includes whatever storage
  it talks to). Every method may raise and may change that state. \<^verbatim>\<open>_describe\<close> and
  \<^verbatim>\<open>_pretty_repr\<close> only render text and are taken as pure.
\<close>

record ('d, 'v) AbstractDataset =
  ds_load :: "'d \<Rightarrow> (error + 'v) \<times> 'd"
  ds_save :: "'d \<Rightarrow> 'v \<Rightarrow> (error + unit) \<times> 'd"
  ds_exists :: "'d \<Rightarrow> (error + bool) \<times> 'd"
  ds_release :: "'d \<Rightarrow> (error + unit) \<times> 'd"
  ds_describe :: "'d \<Rightarrow> desc"
  ds_pretty_repr :: "'d \<Rightarrow> desc \<Rightarrow> string"

text \<open>
  The calls a delegate receives. \<open>traced D\<close> is the delegate class \<open>D\<close> with a journal
  beside its state: every call of \<^verbatim>\<open>load\<close>, \<^verbatim>\<open>save\<close>, \<^verbatim>\<open>exists\<close> or \<^verbatim>\<open>release\<close> is
  appended to it and otherwise behaves as in \<open>D\<close>. Statements about which calls the wrapper
  makes on its delegate are statements about this journal.
\<close>

datatype 'v call = CallLoad | CallSave 'v | CallExists | CallRelease

definition traced :: "('d, 'v) AbstractDataset \<Rightarrow> ('d \<times> 'v call list, 'v) AbstractDataset" where
  "traced D =
     \<lparr> ds_load = (\<lambda>(d, t). case ds_load D d of (r, d') \<Rightarrow> (r, (d', t @ [CallLoad]))),
       ds_save = (\<lambda>(d, t) v. case ds_save D d v of (r, d') \<Rightarrow> (r, (d', t @ [CallSave v]))),
       ds_exists = (\<lambda>(d, t). case ds_exists D d of (r, d') \<Rightarrow> (r, (d', t @ [CallExists]))),
       ds_release = (\<lambda>(d, t). case ds_release D d of (r, d') \<Rightarrow> (r, (d', t @ [CallRelease]))),
       ds_describe = (\<lambda>(d, t). ds_describe D d),
       ds_pretty_repr = (\<lambda>(d, t). ds_pretty_repr D d) \<rparr>"

text \<open>
  The factory \<^verbatim>\<open>AbstractDataset.from_config(name, config, load_version, save_version)\<close> is
  external as well: a parameter that resolves a configuration into a delegate or fails,
  over a state \<open>'w\<close> of its own (the registry and whatever building a delegate touches).
\<close>

type_synonym ('d, 'w) factory =
  "string \<Rightarrow> config \<Rightarrow> string option \<Rightarrow> string option \<Rightarrow> 'w \<Rightarrow> (error + 'd) \<times> 'w"

text \<open>\<open>recorded F\<close> is the factory \<open>F\<close> keeping a list of the arguments of every call.\<close>

definition recorded ::
  "('d, 'w) factory \<Rightarrow>
   ('d, 'w \<times> (string \<times> config \<times> string option \<times> string option) list) factory" where
  "recorded F name config lv sv =
     (\<lambda>(w, calls). case F name config lv sv w of
        (r, w') \<Rightarrow> (r, (w', calls @ [(name, config, lv, sv)])))"

section \<open>The cache body\<close>

text \<open>
  Modelled from the spec: the in-memory store \<^verbatim>\<open>MemoryDataset\<close> of
  \<^verbatim>\<open>kedro.io.memory_dataset\<close>, which is not among the sources. The spec describes it as a
  volatile store with the data-resource contract, created empty by the wrapper and
  configured with a copy policy (deep copy, shallow copy or plain reference). Values are
  immutable here, so a copy that is made is the value itself; the policy is kept as a
  field. Reading an empty store raises. Its \<^verbatim>\<open>save\<close> has the contract
  \<^verbatim>\<open>save(value) -> void|fails\<close>: it stores the value or raises, and the spec has a failed
  cache write propagate with the store left as it was. Which values a store with a given
  copy policy refuses is not in the spec: it is a parameter, a function giving the
  exception that \<^verbatim>\<open>save\<close> raises for a copy policy and a value, if any. A value is
  in the store only after a save that accepted it, so reading it back does not raise.
\<close>

type_synonym 'v refusal = "string option \<Rightarrow> 'v \<Rightarrow> error option"

record 'v MemoryDataset =
  data :: "'v option"
  copy_mode :: "string option"

definition MemoryDataset_init :: "string option \<Rightarrow> 'v MemoryDataset" where
  "MemoryDataset_init cm = \<lparr> data = None, copy_mode = cm \<rparr>"

definition MemoryDataset_exists :: "'v MemoryDataset \<Rightarrow> bool" where
  "MemoryDataset_exists m = (data m \<noteq> None)"

definition MemoryDataset_load :: "'v MemoryDataset \<Rightarrow> error + 'v" where
  "MemoryDataset_load m =
     (case data m of
        None \<Rightarrow> Inl (DatasetError ''Data for MemoryDataset has not been saved yet.'')
      | Some v \<Rightarrow> Inr v)"

definition MemoryDataset_save ::
  "'v refusal \<Rightarrow> 'v MemoryDataset \<Rightarrow> 'v \<Rightarrow> (error + unit) \<times> 'v MemoryDataset" where
  "MemoryDataset_save R m v =
     (case R (copy_mode m) v of
        Some e \<Rightarrow> (Inl e, m)
      | None \<Rightarrow> (Inr (), m\<lparr>data := Some v\<rparr>))"

definition MemoryDataset_release :: "'v MemoryDataset \<Rightarrow> 'v MemoryDataset" where
  "MemoryDataset_release m = m\<lparr>data := None\<rparr>"

section \<open>The caching wrapper\<close>

text \<open>
  The attributes of a \<^verbatim>\<open>CachedDataset\<close>: \<^verbatim>\<open>_EPHEMERAL\<close>, \<^verbatim>\<open>_dataset\<close> (the delegate,
  here its state), \<^verbatim>\<open>_cache\<close> and \<^verbatim>\<open>metadata\<close>.
\<close>

record ('d, 'v) CachedDataset =
  EPHEMERAL :: bool
  dataset :: 'd
  cache :: "'v MemoryDataset"
  metadata :: "config option"

definition versioned_msg :: string where
  "versioned_msg =
     ''Cached datasets should specify that they are versioned in the 'CachedDataset', not in the wrapped dataset.''"

definition argument_msg :: string where
  "argument_msg =
     ''The argument type of 'dataset' should be either a dict/YAML representation of the dataset, or the actual dataset object.''"

text \<open>
  \<^verbatim>\<open>_from_config(config, version)\<close>. The dictionary is the caller's object, and the
  assignment \<^verbatim>\<open>config[VERSIONED_FLAG_KEY] = True\<close> writes into it, so the model returns
  the dictionary as the call leaves it, next to the outcome and the factory's state.
\<close>

definition CachedDataset_from_config ::
  "('d, 'w) factory \<Rightarrow> config \<Rightarrow> Version option \<Rightarrow> 'w \<Rightarrow> (error + 'd) \<times> config \<times> 'w" where
  "CachedDataset_from_config F config version w =
     (if config VERSIONED_FLAG_KEY \<noteq> None then (Inl (ValueError versioned_msg), config, w)
      else case version of
        Some ver \<Rightarrow>
          (let config' = config(VERSIONED_FLAG_KEY \<mapsto> CBool True)
           in case F ''_cached'' config' (load ver) (save ver) w of
                (r, w') \<Rightarrow> (r, config', w'))
      | None \<Rightarrow>
          (case F ''_cached'' config None None w of (r, w') \<Rightarrow> (r, config, w')))"

text \<open>
  The \<^verbatim>\<open>dataset\<close> argument of the constructor: a dictionary, a dataset object, or
  anything else Python lets the caller pass.
\<close>

datatype 'd source = SrcDict config | SrcDataset 'd | SrcOther py_object

text \<open>
  \<^verbatim>\<open>__init__(dataset, version, copy_mode, metadata)\<close>. The result carries the new wrapper
  or the exception, the \<^verbatim>\<open>dataset\<close> argument as the call leaves it, and the factory's
  state.
\<close>

definition CachedDataset_init ::
  "('d, 'w) factory \<Rightarrow> 'd source \<Rightarrow> Version option \<Rightarrow> string option \<Rightarrow> config option \<Rightarrow> 'w
   \<Rightarrow> (error + ('d, 'v) CachedDataset) \<times> 'd source \<times> 'w" where
  "CachedDataset_init F src version cm md w =
     (case src of
        SrcDict config \<Rightarrow>
          (case CachedDataset_from_config F config version w of
             (Inl e, config', w') \<Rightarrow> (Inl e, SrcDict config', w')
           | (Inr d, config', w') \<Rightarrow>
               (Inr \<lparr> EPHEMERAL = True, dataset = d,
                      cache = MemoryDataset_init cm, metadata = md \<rparr>,
                SrcDict config', w'))
      | SrcDataset d \<Rightarrow>
          (Inr \<lparr> EPHEMERAL = True, dataset = d,
                 cache = MemoryDataset_init cm, metadata = md \<rparr>,
           SrcDataset d, w)
      | SrcOther x \<Rightarrow> (Inl (ValueError argument_msg), SrcOther x, w))"

text \<open>\<^verbatim>\<open>_release\<close>: the cache body first, then the delegate.\<close>

definition CachedDataset_release ::
  "('d, 'v) AbstractDataset \<Rightarrow> ('d, 'v) CachedDataset \<Rightarrow> (error + unit) \<times> ('d, 'v) CachedDataset" where
  "CachedDataset_release D self =
     (let self1 = self\<lparr>cache := MemoryDataset_release (cache self)\<rparr>
      in case ds_release D (dataset self1) of
           (r, d') \<Rightarrow> (r, self1\<lparr>dataset := d'\<rparr>))"

text \<open>
  \<^verbatim>\<open>_load\<close>: the conditional expression picks the cache body or the delegate; an
  exception leaves the method there; otherwise, when the cache body is empty, the value
  is saved into it, and an exception of that save leaves the method too; then the value
  is returned. \<open>R\<close> is what the cache body refuses.
\<close>

definition CachedDataset_load ::
  "'v refusal \<Rightarrow> ('d, 'v) AbstractDataset \<Rightarrow> ('d, 'v) CachedDataset
   \<Rightarrow> (error + 'v) \<times> ('d, 'v) CachedDataset" where
  "CachedDataset_load R D self =
     (case (if MemoryDataset_exists (cache self) then (MemoryDataset_load (cache self), self)
            else case ds_load D (dataset self) of (r, d') \<Rightarrow> (r, self\<lparr>dataset := d'\<rparr>)) of
        (Inl e, self1) \<Rightarrow> (Inl e, self1)
      | (Inr v, self1) \<Rightarrow>
          (if \<not> MemoryDataset_exists (cache self1)
           then (case MemoryDataset_save R (cache self1) v of
                   (Inl e, c') \<Rightarrow> (Inl e, self1\<lparr>cache := c'\<rparr>)
                 | (Inr u, c') \<Rightarrow> (Inr v, self1\<lparr>cache := c'\<rparr>))
           else (Inr v, self1)))"

text \<open>
  \<^verbatim>\<open>_save\<close>: the delegate first; the cache body's save only when that call returned,
  and its outcome is then the outcome of the method.
\<close>

definition CachedDataset_save ::
  "'v refusal \<Rightarrow> ('d, 'v) AbstractDataset \<Rightarrow> ('d, 'v) CachedDataset \<Rightarrow> 'v
   \<Rightarrow> (error + unit) \<times> ('d, 'v) CachedDataset" where
  "CachedDataset_save R D self v =
     (case ds_save D (dataset self) v of
        (Inl e, d') \<Rightarrow> (Inl e, self\<lparr>dataset := d'\<rparr>)
      | (Inr u, d') \<Rightarrow>
          (case MemoryDataset_save R (cache self) v of
             (r, c') \<Rightarrow> (r, self\<lparr>dataset := d', cache := c'\<rparr>)))"

text \<open>\<^verbatim>\<open>_exists\<close>: Python's \<^verbatim>\<open>or\<close> evaluates its right operand only when the left is false.\<close>

definition CachedDataset_exists ::
  "('d, 'v) AbstractDataset \<Rightarrow> ('d, 'v) CachedDataset \<Rightarrow> (error + bool) \<times> ('d, 'v) CachedDataset" where
  "CachedDataset_exists D self =
     (if MemoryDataset_exists (cache self) then (Inr True, self)
      else case ds_exists D (dataset self) of (r, d') \<Rightarrow> (r, self\<lparr>dataset := d'\<rparr>))"

text \<open>
  \<^verbatim>\<open>_describe\<close> and \<^verbatim>\<open>__repr__\<close>. What the cache body describes and how the base class
  renders a description (\<^verbatim>\<open>_pretty_repr\<close>) are outside the sources and are parameters.
\<close>

definition CachedDataset_describe ::
  "('d, 'v) AbstractDataset \<Rightarrow> ('v MemoryDataset \<Rightarrow> desc) \<Rightarrow> ('d, 'v) CachedDataset \<Rightarrow> desc" where
  "CachedDataset_describe D cache_describe self =
     DescDict [(''dataset'', ds_describe D (dataset self)),
               (''cache'', cache_describe (cache self))]"

definition CachedDataset_repr ::
  "('d, 'v) AbstractDataset \<Rightarrow> ('v MemoryDataset \<Rightarrow> desc) \<Rightarrow> (desc \<Rightarrow> string)
   \<Rightarrow> ('d, 'v) CachedDataset \<Rightarrow> string" where
  "CachedDataset_repr D cache_describe pretty_repr self =
     (let object_description =
            DescDict
              [(''dataset'',
                DescStr (ds_pretty_repr D (dataset self) (ds_describe D (dataset self)))),
               (''cache'',
                DescStr (ds_pretty_repr D (dataset self) (cache_describe (cache self))))]
      in pretty_repr object_description)"

text \<open>
  \<^verbatim>\<open>__getstate__\<close>, the hook that pickling calls before it captures the wrapper: a
  warning goes to the logger, the cache body is released, and the attribute dictionary
  is returned. The message is formatted from \<^verbatim>\<open>str(self)\<close>; how the base class prints
  a dataset (\<^verbatim>\<open>__str__\<close>) is outside the sources and is the parameter \<open>to_str\<close>. The
  logger is a list of records; the returned dictionary is the wrapper's own, so the
  result is the returned attributes, the wrapper and the logger.
\<close>

datatype log_level = WARNING

type_synonym logger = "(log_level \<times> string) list"

definition CachedDataset_getstate ::
  "(('d, 'v) CachedDataset \<Rightarrow> string) \<Rightarrow> ('d, 'v) CachedDataset \<Rightarrow> logger
   \<Rightarrow> ('d, 'v) CachedDataset \<times> ('d, 'v) CachedDataset \<times> logger" where
  "CachedDataset_getstate to_str self lg =
     (let lg' = lg @ [(WARNING, to_str self @ '': clearing cache to pickle.'')];
          self' = self\<lparr>cache := MemoryDataset_release (cache self)\<rparr>
      in (self', self', lg'))"

section \<open>Concrete delegates, factories and wrappers\<close>

text \<open>
  A delegate that keeps at most one object (a file that holds a value or is absent), a
  delegate whose storage is unreachable, a factory that resolves every configuration to
  an absent file, the configuration of the class's docstring, and a wrapper given by the
  state of its delegate and the content of its cache body. \<open>store_policy\<close> is one
  cache body: it refuses the object \<^verbatim>\<open>None\<close>, and refuses everything under a copy mode
  other than the three the constructor's docstring lists.
\<close>

definition store_policy :: "py_object refusal" where
  "store_policy cm v =
     (if v = PyNone
      then Some (DatasetError ''Saving 'None' to a 'Dataset' is not allowed'')
      else if cm \<in> {None, Some ''deepcopy'', Some ''copy'', Some ''assign''}
      then None
      else Some (DatasetError ''Invalid copy mode''))"

definition file_dataset :: "(py_object option, py_object) AbstractDataset" where
  "file_dataset =
     \<lparr> ds_load = (\<lambda>d. case d of
                      None \<Rightarrow> (Inl (DatasetError ''example.csv does not exist''), d)
                    | Some v \<Rightarrow> (Inr v, d)),
       ds_save = (\<lambda>d v. (Inr (), Some v)),
       ds_exists = (\<lambda>d. (Inr (d \<noteq> None), d)),
       ds_release = (\<lambda>d. (Inr (), d)),
       ds_describe = (\<lambda>d. DescDict [(''filepath'', DescStr ''example.csv'')]),
       ds_pretty_repr = (\<lambda>d x. ''CSVDataset(filepath=example.csv)'') \<rparr>"

definition unreachable_dataset :: "(py_object option, py_object) AbstractDataset" where
  "unreachable_dataset =
     \<lparr> ds_load = (\<lambda>d. (Inl (OtherError ''connection refused''), d)),
       ds_save = (\<lambda>d v. (Inl (OtherError ''connection refused''), d)),
       ds_exists = (\<lambda>d. (Inl (OtherError ''connection refused''), d)),
       ds_release = (\<lambda>d. (Inr (), d)),
       ds_describe = (\<lambda>d. DescDict []),
       ds_pretty_repr = (\<lambda>d x. ''RemoteDataset()'') \<rparr>"

definition file_factory :: "(py_object option, unit) factory" where
  "file_factory name config lv sv w = (Inr None, w)"

definition csv_config :: config where
  "csv_config =
     [''type'' \<mapsto> CStr ''pandas.CSVDataset'', ''filepath'' \<mapsto> CStr ''example.csv'']"

definition wrapper_of :: "'d \<Rightarrow> py_object option \<Rightarrow> ('d, py_object) CachedDataset" where
  "wrapper_of d c =
     \<lparr> EPHEMERAL = True, dataset = d,
       cache = \<lparr> data = c, copy_mode = None \<rparr>, metadata = None \<rparr>"

section \<open>Basic facts\<close>

lemma traced_simps:
  "ds_load (traced D) (d, t) = (fst (ds_load D d), (snd (ds_load D d), t @ [CallLoad]))"
  "ds_save (traced D) (d, t) v = (fst (ds_save D d v), (snd (ds_save D d v), t @ [CallSave v]))"
  "ds_exists (traced D) (d, t) = (fst (ds_exists D d), (snd (ds_exists D d), t @ [CallExists]))"
  "ds_release (traced D) (d, t) = (fst (ds_release D d), (snd (ds_release D d), t @ [CallRelease]))"
  by (simp_all add: traced_def split: prod.splits)

lemmas mem_defs = MemoryDataset_exists_def MemoryDataset_load_def MemoryDataset_save_def
  MemoryDataset_release_def MemoryDataset_init_def

lemma load_hit:
  "data (cache self) = Some u \<Longrightarrow> CachedDataset_load R D self = (Inr u, self)"
  by (simp add: CachedDataset_load_def mem_defs)

lemma load_miss:
  "data (cache self) = None \<Longrightarrow>
   CachedDataset_load R D self =
     (case ds_load D (dataset self) of
        (Inl e, d') \<Rightarrow> (Inl e, self\<lparr>dataset := d'\<rparr>)
      | (Inr v, d') \<Rightarrow>
          (case R (copy_mode (cache self)) v of
             Some e \<Rightarrow> (Inl e, self\<lparr>dataset := d'\<rparr>)
           | None \<Rightarrow> (Inr v, self\<lparr>dataset := d', cache := (cache self)\<lparr>data := Some v\<rparr>\<rparr>)))"
  by (simp add: CachedDataset_load_def mem_defs split: prod.splits sum.splits option.splits)

lemma save_eq:
  "CachedDataset_save R D self v =
     (case ds_save D (dataset self) v of
        (Inl e, d') \<Rightarrow> (Inl e, self\<lparr>dataset := d'\<rparr>)
      | (Inr u, d') \<Rightarrow>
          (case R (copy_mode (cache self)) v of
             Some e \<Rightarrow> (Inl e, self\<lparr>dataset := d'\<rparr>)
           | None \<Rightarrow> (Inr (), self\<lparr>dataset := d', cache := (cache self)\<lparr>data := Some v\<rparr>\<rparr>)))"
  by (simp add: CachedDataset_save_def mem_defs split: prod.splits sum.splits option.splits)

lemma store_policy_simps:
  "store_policy cm PyNone = Some (DatasetError ''Saving 'None' to a 'Dataset' is not allowed'')"
  "store_policy None (PyInt n) = None"
  "store_policy (Some ''rename'') (PyInt n)
     = Some (DatasetError ''Invalid copy mode'')"
  by (simp_all add: store_policy_def)

lemma release_eq:
  "CachedDataset_release D self =
     (fst (ds_release D (dataset self)),
      self\<lparr>cache := (cache self)\<lparr>data := None\<rparr>, dataset := snd (ds_release D (dataset self))\<rparr>)"
  by (simp add: CachedDataset_release_def mem_defs Let_def split: prod.splits)

lemma file_dataset_simps:
  "ds_load file_dataset (Some v) = (Inr v, Some v)"
  "ds_load file_dataset None = (Inl (DatasetError ''example.csv does not exist''), None)"
  "ds_save file_dataset d v = (Inr (), Some v)"
  "ds_exists file_dataset d = (Inr (d \<noteq> None), d)"
  "ds_release file_dataset d = (Inr (), d)"
  by (simp_all add: file_dataset_def)

lemma unreachable_dataset_simps:
  "ds_load unreachable_dataset d = (Inl (OtherError ''connection refused''), d)"
  "ds_save unreachable_dataset d v = (Inl (OtherError ''connection refused''), d)"
  "ds_exists unreachable_dataset d = (Inl (OtherError ''connection refused''), d)"
  "ds_release unreachable_dataset d = (Inr (), d)"
  by (simp_all add: unreachable_dataset_def)

text \<open>
  The scenario of the spec: a first load reads the delegate and fills the cache body; the
  file is then changed from outside; the next load still returns the cached value;
  after a release the load reads the file again.
\<close>

lemma spec_scenario:
  "CachedDataset_load store_policy file_dataset (wrapper_of (Some (PyInt 1)) None)
     = (Inr (PyInt 1), wrapper_of (Some (PyInt 1)) (Some (PyInt 1))) \<and>
   CachedDataset_load store_policy file_dataset
       ((wrapper_of (Some (PyInt 1)) (Some (PyInt 1)))\<lparr>dataset := Some (PyInt 2)\<rparr>)
     = (Inr (PyInt 1), wrapper_of (Some (PyInt 2)) (Some (PyInt 1))) \<and>
   CachedDataset_release file_dataset (wrapper_of (Some (PyInt 2)) (Some (PyInt 1)))
     = (Inr (), wrapper_of (Some (PyInt 2)) None) \<and>
   CachedDataset_load store_policy file_dataset (wrapper_of (Some (PyInt 2)) None)
     = (Inr (PyInt 2), wrapper_of (Some (PyInt 2)) (Some (PyInt 2)))"
  by (simp add: load_hit load_miss release_eq wrapper_of_def file_dataset_simps
      store_policy_simps)

section \<open>Construction\<close>

text \<open>
  C8. A \<^verbatim>\<open>dataset\<close> argument that is neither a dictionary nor a dataset object makes the
  constructor raise the \<^verbatim>\<open>ValueError\<close> about the argument type (the spec's
  \<open>InvalidArgumentError\<close>): no wrapper is returned, the factory is not called and nothing
  is changed.
\<close>

theorem init_other_source_fails:
  "CachedDataset_init F (SrcOther x) version cm md w
     = (Inl (ValueError argument_msg), SrcOther x, w)"
  by (simp add: CachedDataset_init_def)

text \<open>
  C5. A configuration dictionary that already contains the versioned key makes the
  constructor raise the \<^verbatim>\<open>ValueError\<close> about duplicate versioning (the spec's
  \<open>ConfigurationError\<close>), whether or not a version is supplied. No wrapper is built, the
  dictionary is left as it was, and the factory has not been called: its state and the
  list of its calls are unchanged.
\<close>

theorem init_versioned_config_fails:
  "config VERSIONED_FLAG_KEY \<noteq> None \<Longrightarrow>
   CachedDataset_init (recorded F) (SrcDict config) version cm md (w, calls)
     = (Inl (ValueError versioned_msg), SrcDict config, (w, calls))"
  by (simp add: CachedDataset_init_def CachedDataset_from_config_def)

theorem init_versioned_config_fails_witness:
  "(csv_config(VERSIONED_FLAG_KEY \<mapsto> CBool True)) VERSIONED_FLAG_KEY \<noteq> None \<and>
   (CachedDataset_init (recorded file_factory)
      (SrcDict (csv_config(VERSIONED_FLAG_KEY \<mapsto> CBool True)))
      (Some \<lparr> load = None, save = Some ''2026-01-01'' \<rparr>) None None ((), [])
     :: (error + (py_object option, py_object) CachedDataset) \<times> _)
     = (Inl (ValueError versioned_msg),
        SrcDict (csv_config(VERSIONED_FLAG_KEY \<mapsto> CBool True)), ((), []))"
  using init_versioned_config_fails
    [where config = "csv_config(VERSIONED_FLAG_KEY \<mapsto> CBool True)" and F = file_factory
       and version = "Some \<lparr> load = None, save = Some ''2026-01-01'' \<rparr>"
       and cm = None and md = None and w = "()" and calls = "[]"]
  by simp

text \<open>
  C10. The test is on the presence of the versioned key alone. Whatever value \<open>x\<close> the
  key has, \<^verbatim>\<open>_from_config\<close> raises the duplicate-versioning \<^verbatim>\<open>ValueError\<close> before it
  looks at the version or calls the factory; in particular the constructor rejects a
  configuration with the key set to false exactly as it rejects one with the key set to
  true.
\<close>

theorem from_config_key_presence_alone:
  "CachedDataset_from_config F (config(VERSIONED_FLAG_KEY \<mapsto> x)) version w
     = (Inl (ValueError versioned_msg), config(VERSIONED_FLAG_KEY \<mapsto> x), w)
   \<and> CachedDataset_init F (SrcDict (config(VERSIONED_FLAG_KEY \<mapsto> CBool False))) version cm md w
     = (Inl (ValueError versioned_msg), SrcDict (config(VERSIONED_FLAG_KEY \<mapsto> CBool False)), w)
   \<and> CachedDataset_init F (SrcDict (config(VERSIONED_FLAG_KEY \<mapsto> CBool True))) version cm md w
     = (Inl (ValueError versioned_msg), SrcDict (config(VERSIONED_FLAG_KEY \<mapsto> CBool True)), w)"
  by (simp add: CachedDataset_init_def CachedDataset_from_config_def)

text \<open>
  C9 as stated does not hold. Constructing a wrapper from the docstring's configuration
  with a version succeeds, and the caller's dictionary, which had no versioned key, has
  one afterwards: \<^verbatim>\<open>_from_config\<close> assigns into the dictionary it was given.
\<close>

theorem init_marks_callers_config_counterexample:
  "(CachedDataset_init file_factory (SrcDict csv_config)
      (Some \<lparr> load = None, save = None \<rparr>) None None ()
     :: (error + (py_object option, py_object) CachedDataset) \<times> _)
     = (Inr (wrapper_of None None),
        SrcDict (csv_config(VERSIONED_FLAG_KEY \<mapsto> CBool True)), ())
   \<and> csv_config VERSIONED_FLAG_KEY = None
   \<and> (csv_config(VERSIONED_FLAG_KEY \<mapsto> CBool True)) VERSIONED_FLAG_KEY = Some (CBool True)
   \<and> (SrcDict (csv_config(VERSIONED_FLAG_KEY \<mapsto> CBool True)) :: py_object option source)
       \<noteq> SrcDict csv_config"
proof -
  have "(csv_config(VERSIONED_FLAG_KEY \<mapsto> CBool True)) VERSIONED_FLAG_KEY
          \<noteq> csv_config VERSIONED_FLAG_KEY"
    by (simp add: csv_config_def VERSIONED_FLAG_KEY_def)
  then have "csv_config(VERSIONED_FLAG_KEY \<mapsto> CBool True) \<noteq> csv_config"
    by metis
  then show ?thesis
    by (simp add: CachedDataset_init_def CachedDataset_from_config_def file_factory_def
        csv_config_def VERSIONED_FLAG_KEY_def wrapper_of_def MemoryDataset_init_def)
qed

text \<open>
  C9, amended. A successful construction makes no call on the delegate and changes
  nothing but the following. The wrapper is new: ephemeral, with the given metadata and
  an empty cache body with the given copy policy. Given a dataset object, the wrapper
  holds that object in the state it was in, and the argument and the factory are
  untouched. Given a dictionary, it had no versioned key, the factory was called exactly
  once and the wrapper holds what it returned; without a version the dictionary is
  unchanged and the factory got it with no version identifiers; with a version the
  caller's dictionary now has the versioned key set to true, and the factory got that
  dictionary with the load and save identifiers.
\<close>

theorem init_success_effects:
  assumes "CachedDataset_init (recorded F) src version cm md (w, calls)
             = (Inr self, src', (w', calls'))"
  shows "cache self = MemoryDataset_init cm \<and> EPHEMERAL self \<and> metadata self = md \<and>
     (case src of
        SrcDataset d \<Rightarrow> dataset self = d \<and> src' = src \<and> w' = w \<and> calls' = calls
      | SrcDict config \<Rightarrow>
          config VERSIONED_FLAG_KEY = None \<and>
          (case version of
             None \<Rightarrow>
               src' = src \<and> F ''_cached'' config None None w = (Inr (dataset self), w') \<and>
               calls' = calls @ [(''_cached'', config, None, None)]
           | Some ver \<Rightarrow>
               src' = SrcDict (config(VERSIONED_FLAG_KEY \<mapsto> CBool True)) \<and>
               F ''_cached'' (config(VERSIONED_FLAG_KEY \<mapsto> CBool True)) (load ver) (save ver) w
                 = (Inr (dataset self), w') \<and>
               calls' = calls @ [(''_cached'', config(VERSIONED_FLAG_KEY \<mapsto> CBool True),
                                  load ver, save ver)])
      | SrcOther x \<Rightarrow> False)"
  using assms
  by (auto simp: CachedDataset_init_def CachedDataset_from_config_def recorded_def Let_def
      split: source.splits option.splits prod.splits sum.splits if_splits)

theorem init_success_effects_witness:
  "(CachedDataset_init (recorded file_factory) (SrcDict csv_config)
      (Some \<lparr> load = Some ''2026-01-01'', save = None \<rparr>) (Some ''assign'') None ((), [])
     :: (error + (py_object option, py_object) CachedDataset) \<times> _)
     = (Inr \<lparr> EPHEMERAL = True, dataset = None,
              cache = \<lparr> data = None, copy_mode = Some ''assign'' \<rparr>, metadata = None \<rparr>,
        SrcDict (csv_config(VERSIONED_FLAG_KEY \<mapsto> CBool True)),
        ((), [(''_cached'', csv_config(VERSIONED_FLAG_KEY \<mapsto> CBool True),
               Some ''2026-01-01'', None)]))"
proof -
  have absent: "csv_config VERSIONED_FLAG_KEY = None"
    by (simp add: csv_config_def VERSIONED_FLAG_KEY_def)
  obtain r :: "error + (py_object option, py_object) CachedDataset" and src' w' calls'
    where run: "CachedDataset_init (recorded file_factory) (SrcDict csv_config)
                  (Some \<lparr> load = Some ''2026-01-01'', save = None \<rparr>) (Some ''assign'') None
                  ((), []) = (r, src', (w', calls'))"
    by (metis surj_pair)
  then obtain self where ok: "r = Inr self"
    by (auto simp: CachedDataset_init_def CachedDataset_from_config_def recorded_def
        file_factory_def absent Let_def)
  from init_success_effects [OF run [unfolded ok]] run ok show ?thesis
    by (cases self) (simp add: MemoryDataset_init_def file_factory_def)
qed

section \<open>Reading\<close>

text \<open>
  C1 as stated does not hold for every wrapper, in two ways. First, the delegate returns
  2 from \<^verbatim>\<open>load\<close> and the cache body holds 1 (the file was changed from outside after
  the value was cached, as in the spec's scenario): two loads in a row, with no save,
  return 1, not 2. Second, the delegate returns \<^verbatim>\<open>None\<close> and the cache body, which is
  empty, refuses it: the load reads the delegate, the fill raises, nothing is returned
  or cached, and a second load reads the delegate again.
\<close>

theorem load_cache_precedence_counterexample:
  "ds_load file_dataset (Some (PyInt 2)) = (Inr (PyInt 2), Some (PyInt 2)) \<and>
   CachedDataset_load store_policy file_dataset (wrapper_of (Some (PyInt 2)) (Some (PyInt 1)))
     = (Inr (PyInt 1), wrapper_of (Some (PyInt 2)) (Some (PyInt 1))) \<and>
   fst (CachedDataset_load store_policy file_dataset
          (snd (CachedDataset_load store_policy file_dataset
                  (wrapper_of (Some (PyInt 2)) (Some (PyInt 1)))))) = Inr (PyInt 1) \<and>
   ds_load file_dataset (Some PyNone) = (Inr PyNone, Some PyNone) \<and>
   CachedDataset_load store_policy (traced file_dataset) (wrapper_of (Some PyNone, []) None)
     = (Inl (DatasetError ''Saving 'None' to a 'Dataset' is not allowed''),
        wrapper_of (Some PyNone, [CallLoad]) None) \<and>
   CachedDataset_load store_policy (traced file_dataset)
       (wrapper_of (Some PyNone, [CallLoad]) None)
     = (Inl (DatasetError ''Saving 'None' to a 'Dataset' is not allowed''),
        wrapper_of (Some PyNone, [CallLoad, CallLoad]) None)"
  by (simp add: load_hit load_miss wrapper_of_def file_dataset_simps traced_simps
      store_policy_simps)

text \<open>
  C1, amended. \<^verbatim>\<open>load\<close> consults the cache body first. When the cache body holds a
  value \<open>u\<close>, load returns \<open>u\<close> and the wrapper, delegate and journal included, is
  unchanged: the delegate is not called, and a second load does the same (so a cache body
  that already holds what the delegate returns yields it twice with no call). When the
  cache body is empty and the delegate's \<^verbatim>\<open>load\<close> returns \<open>v\<close>, the delegate has
  received that one call and the value is saved into the cache body. If the cache body
  accepts \<open>v\<close>, load returns \<open>v\<close> and the cache body now holds \<open>v\<close>; a second load then
  returns \<open>v\<close> again and leaves everything as the first load left it, so the delegate
  was read once, by the first call. If the cache body refuses \<open>v\<close> with \<open>e\<close>, load raises
  \<open>e\<close> and the cache body is still empty.
\<close>

theorem load_cache_first_fill_on_miss:
  "(data (cache self) = Some u \<longrightarrow>
      CachedDataset_load R (traced D) self = (Inr u, self) \<and>
      CachedDataset_load R (traced D) (snd (CachedDataset_load R (traced D) self))
        = (Inr u, self)) \<and>
   (data (cache self) = None \<and> dataset self = (d, t) \<and> ds_load D d = (Inr v, d') \<and>
    R (copy_mode (cache self)) v = None \<longrightarrow>
      CachedDataset_load R (traced D) self
        = (Inr v, self\<lparr>dataset := (d', t @ [CallLoad]),
                       cache := (cache self)\<lparr>data := Some v\<rparr>\<rparr>) \<and>
      CachedDataset_load R (traced D) (snd (CachedDataset_load R (traced D) self))
        = (Inr v, snd (CachedDataset_load R (traced D) self)) \<and>
      snd (dataset (snd (CachedDataset_load R (traced D)
                           (snd (CachedDataset_load R (traced D) self))))) = t @ [CallLoad]) \<and>
   (data (cache self) = None \<and> dataset self = (d, t) \<and> ds_load D d = (Inr v, d') \<and>
    R (copy_mode (cache self)) v = Some e \<longrightarrow>
      CachedDataset_load R (traced D) self
        = (Inl e, self\<lparr>dataset := (d', t @ [CallLoad])\<rparr>))"
proof -
  let ?load = "CachedDataset_load R (traced D)"
  have hit: "?load self = (Inr u, self) \<and> ?load (snd (?load self)) = (Inr u, self)"
    if "data (cache self) = Some u"
    using that by (simp add: load_hit)
  have miss: "?load self = (Inr v, self\<lparr>dataset := (d', t @ [CallLoad]),
                                        cache := (cache self)\<lparr>data := Some v\<rparr>\<rparr>) \<and>
              ?load (snd (?load self)) = (Inr v, snd (?load self)) \<and>
              snd (dataset (snd (?load (snd (?load self))))) = t @ [CallLoad]"
    if empty: "data (cache self) = None" and parts: "dataset self = (d, t)"
      and reads: "ds_load D d = (Inr v, d')" and accepts: "R (copy_mode (cache self)) v = None"
  proof -
    from empty parts reads accepts
    have first: "?load self = (Inr v, self\<lparr>dataset := (d', t @ [CallLoad]),
                                          cache := (cache self)\<lparr>data := Some v\<rparr>\<rparr>)"
      by (simp add: load_miss traced_simps)
    then have filled: "data (cache (snd (?load self))) = Some v"
      by simp
    then have second: "?load (snd (?load self)) = (Inr v, snd (?load self))"
      by (rule load_hit)
    from first second show ?thesis
      by simp
  qed
  have refused: "?load self = (Inl e, self\<lparr>dataset := (d', t @ [CallLoad])\<rparr>)"
    if "data (cache self) = None" and "dataset self = (d, t)"
      and "ds_load D d = (Inr v, d')" and "R (copy_mode (cache self)) v = Some e"
    using that by (simp add: load_miss traced_simps)
  from hit miss refused show ?thesis
    by blast
qed

theorem load_cache_first_fill_on_miss_witness:
  "CachedDataset_load store_policy (traced file_dataset)
       (wrapper_of (Some (PyInt 2), []) (Some (PyInt 1)))
     = (Inr (PyInt 1), wrapper_of (Some (PyInt 2), []) (Some (PyInt 1))) \<and>
   CachedDataset_load store_policy (traced file_dataset) (wrapper_of (Some (PyInt 2), []) None)
     = (Inr (PyInt 2), wrapper_of (Some (PyInt 2), [CallLoad]) (Some (PyInt 2))) \<and>
   CachedDataset_load store_policy (traced file_dataset)
       (wrapper_of (Some (PyInt 2), [CallLoad]) (Some (PyInt 2)))
     = (Inr (PyInt 2), wrapper_of (Some (PyInt 2), [CallLoad]) (Some (PyInt 2))) \<and>
   CachedDataset_load store_policy (traced file_dataset) (wrapper_of (Some PyNone, []) None)
     = (Inl (DatasetError ''Saving 'None' to a 'Dataset' is not allowed''),
        wrapper_of (Some PyNone, [CallLoad]) None)"
  using load_cache_first_fill_on_miss
      [where self = "wrapper_of (Some (PyInt 2), []) (Some (PyInt 1))" and u = "PyInt 1"
         and R = store_policy and D = file_dataset]
    load_cache_first_fill_on_miss
      [where self = "wrapper_of (Some (PyInt 2), []) None" and R = store_policy
         and D = file_dataset and d = "Some (PyInt 2)" and t = "[]" and v = "PyInt 2"
         and d' = "Some (PyInt 2)"]
    load_cache_first_fill_on_miss
      [where self = "wrapper_of (Some PyNone, []) None" and R = store_policy
         and D = file_dataset and d = "Some PyNone" and t = "[]" and v = PyNone
         and d' = "Some PyNone"
         and e = "DatasetError ''Saving 'None' to a 'Dataset' is not allowed''"]
  by (auto simp add: wrapper_of_def file_dataset_simps store_policy_simps)

text \<open>
  C2. An exception raised by the delegate comes out of the wrapper's \<^verbatim>\<open>load\<close> or
  \<^verbatim>\<open>save\<close> as it was raised, and the cache body is as before the call. When the cache
  body is empty and the delegate's \<^verbatim>\<open>load\<close> raises \<open>e\<close>, the wrapper's load raises \<open>e\<close>
  and has changed nothing but the delegate's own state; when the delegate's \<^verbatim>\<open>save\<close>
  raises \<open>e\<close>, so does the wrapper's save, likewise. Whenever a load or a save of the
  wrapper raises, the cache body is the one from before the call.
\<close>

theorem delegate_failure_propagates_cache_untouched:
  "(\<not> MemoryDataset_exists (cache self) \<and> ds_load D (dataset self) = (Inl e, d') \<longrightarrow>
      CachedDataset_load R D self = (Inl e, self\<lparr>dataset := d'\<rparr>)) \<and>
   (ds_save D (dataset self) v = (Inl e, d') \<longrightarrow>
      CachedDataset_save R D self v = (Inl e, self\<lparr>dataset := d'\<rparr>)) \<and>
   (fst (CachedDataset_load R D self) = Inl e \<longrightarrow>
      cache (snd (CachedDataset_load R D self)) = cache self) \<and>
   (fst (CachedDataset_save R D self v) = Inl e \<longrightarrow>
      cache (snd (CachedDataset_save R D self v)) = cache self)"
  by (auto simp: CachedDataset_load_def CachedDataset_save_def mem_defs
      split: prod.splits sum.splits if_splits option.splits)

theorem delegate_failure_propagates_cache_untouched_witness:
  "CachedDataset_load store_policy unreachable_dataset (wrapper_of (Some (PyInt 3)) None)
     = (Inl (OtherError ''connection refused''), wrapper_of (Some (PyInt 3)) None) \<and>
   CachedDataset_save store_policy unreachable_dataset (wrapper_of (Some (PyInt 3)) None)
       (PyInt 5)
     = (Inl (OtherError ''connection refused''), wrapper_of (Some (PyInt 3)) None) \<and>
   cache (snd (CachedDataset_load store_policy unreachable_dataset
                 (wrapper_of (Some (PyInt 3)) None)))
     = \<lparr> data = None, copy_mode = None \<rparr> \<and>
   cache (snd (CachedDataset_save store_policy unreachable_dataset
                 (wrapper_of (Some (PyInt 3)) None) (PyInt 5)))
     = \<lparr> data = None, copy_mode = None \<rparr>"
  using delegate_failure_propagates_cache_untouched
      [where self = "wrapper_of (Some (PyInt 3)) None" and D = unreachable_dataset
         and R = store_policy and e = "OtherError ''connection refused''"
         and d' = "Some (PyInt 3)" and v = "PyInt 5"]
  by (simp add: wrapper_of_def unreachable_dataset_simps MemoryDataset_exists_def)

section \<open>Writing\<close>

text \<open>
  C3. \<^verbatim>\<open>save(v)\<close> calls the delegate's \<^verbatim>\<open>save\<close> with \<open>v\<close> first, once. When that call
  raises, the wrapper's save raises the same and the cache body is not touched. Only
  when it returned is \<open>v\<close> saved into the cache body: if the cache body accepts \<open>v\<close> the
  save succeeds and the cache body holds \<open>v\<close>; if it refuses, the save raises that
  exception and the cache body stays as it was. So a save that succeeded means that the
  delegate's save returned and that the cache body holds \<open>v\<close>; a load after it returns
  \<open>v\<close> and leaves the wrapper, delegate and journal included, unchanged: the value comes
  from the cache body and the delegate is not called.
\<close>

theorem save_then_load_served_from_cache:
  "dataset self = (d, t) \<Longrightarrow>
   CachedDataset_save R (traced D) self v
     = (case ds_save D d v of
          (Inl e, d') \<Rightarrow> (Inl e, self\<lparr>dataset := (d', t @ [CallSave v])\<rparr>)
        | (Inr u, d') \<Rightarrow>
            (case R (copy_mode (cache self)) v of
               Some e \<Rightarrow> (Inl e, self\<lparr>dataset := (d', t @ [CallSave v])\<rparr>)
             | None \<Rightarrow>
                 (Inr (), self\<lparr>dataset := (d', t @ [CallSave v]),
                               cache := (cache self)\<lparr>data := Some v\<rparr>\<rparr>))) \<and>
   (fst (CachedDataset_save R (traced D) self v) = Inr () \<longrightarrow>
      fst (ds_save D d v) = Inr () \<and>
      data (cache (snd (CachedDataset_save R (traced D) self v))) = Some v \<and>
      CachedDataset_load R (traced D) (snd (CachedDataset_save R (traced D) self v))
        = (Inr v, snd (CachedDataset_save R (traced D) self v)))"
proof -
  assume parts: "dataset self = (d, t)"
  let ?save = "CachedDataset_save R (traced D) self v"
  from parts
  have run: "?save
     = (case ds_save D d v of
          (Inl e, d') \<Rightarrow> (Inl e, self\<lparr>dataset := (d', t @ [CallSave v])\<rparr>)
        | (Inr u, d') \<Rightarrow>
            (case R (copy_mode (cache self)) v of
               Some e \<Rightarrow> (Inl e, self\<lparr>dataset := (d', t @ [CallSave v])\<rparr>)
             | None \<Rightarrow>
                 (Inr (), self\<lparr>dataset := (d', t @ [CallSave v]),
                               cache := (cache self)\<lparr>data := Some v\<rparr>\<rparr>)))"
    by (simp add: save_eq traced_simps split: prod.splits sum.splits option.splits)
  have after: "fst (ds_save D d v) = Inr () \<and> data (cache (snd ?save)) = Some v"
    if "fst ?save = Inr ()"
    using that unfolding run
    by (auto split: prod.splits sum.splits option.splits)
  then have reload: "CachedDataset_load R (traced D) (snd ?save) = (Inr v, snd ?save)"
    if "fst ?save = Inr ()"
    using that by (simp add: load_hit)
  from run after reload show ?thesis
    by simp
qed

theorem save_then_load_served_from_cache_witness:
  "CachedDataset_save store_policy (traced file_dataset) (wrapper_of (None, []) None) (PyInt 7)
     = (Inr (), wrapper_of (Some (PyInt 7), [CallSave (PyInt 7)]) (Some (PyInt 7))) \<and>
   CachedDataset_load store_policy (traced file_dataset)
       (wrapper_of (Some (PyInt 7), [CallSave (PyInt 7)]) (Some (PyInt 7)))
     = (Inr (PyInt 7), wrapper_of (Some (PyInt 7), [CallSave (PyInt 7)]) (Some (PyInt 7))) \<and>
   CachedDataset_save store_policy (traced file_dataset) (wrapper_of (None, []) None) PyNone
     = (Inl (DatasetError ''Saving 'None' to a 'Dataset' is not allowed''),
        wrapper_of (Some PyNone, [CallSave PyNone]) None)"
  using save_then_load_served_from_cache
      [where self = "wrapper_of (None, []) None" and R = store_policy and D = file_dataset
         and d = None and t = "[]" and v = "PyInt 7"]
    save_then_load_served_from_cache
      [where self = "wrapper_of (None, []) None" and R = store_policy and D = file_dataset
         and d = None and t = "[]" and v = PyNone]
  by (auto simp add: wrapper_of_def file_dataset_simps store_policy_simps)

section \<open>Existence\<close>

text \<open>
  C4. When the cache body holds data, \<^verbatim>\<open>exists\<close> returns true and the wrapper,
  delegate and journal included, is unchanged: the delegate is not asked. When the cache
  body is empty, the delegate is asked once and its answer (or exception) is the
  wrapper's. So the answer is true exactly when the cache body holds data or the
  delegate reports existence, and false exactly when the cache body is empty and the
  delegate reports none. The cache body and the wrapper's other attributes are never
  changed; the delegate's state is what its own \<^verbatim>\<open>exists\<close> leaves.
\<close>

theorem exists_cache_or_delegate:
  "(MemoryDataset_exists (cache self) \<longrightarrow>
      CachedDataset_exists (traced D) self = (Inr True, self)) \<and>
   (\<not> MemoryDataset_exists (cache self) \<and> dataset self = (d, t) \<longrightarrow>
      CachedDataset_exists (traced D) self
        = (fst (ds_exists D d), self\<lparr>dataset := (snd (ds_exists D d), t @ [CallExists])\<rparr>)) \<and>
   (dataset self = (d, t) \<longrightarrow>
      (fst (CachedDataset_exists (traced D) self) = Inr True) =
      (MemoryDataset_exists (cache self) \<or> fst (ds_exists D d) = Inr True)) \<and>
   (dataset self = (d, t) \<longrightarrow>
      (fst (CachedDataset_exists (traced D) self) = Inr False) =
      (\<not> MemoryDataset_exists (cache self) \<and> fst (ds_exists D d) = Inr False)) \<and>
   cache (snd (CachedDataset_exists (traced D) self)) = cache self \<and>
   EPHEMERAL (snd (CachedDataset_exists (traced D) self)) = EPHEMERAL self \<and>
   metadata (snd (CachedDataset_exists (traced D) self)) = metadata self"
  by (cases "dataset self")
     (auto simp: CachedDataset_exists_def traced_simps split: prod.splits)

theorem exists_cache_or_delegate_witness:
  "CachedDataset_exists (traced file_dataset) (wrapper_of (None, []) (Some (PyInt 1)))
     = (Inr True, wrapper_of (None, []) (Some (PyInt 1))) \<and>
   CachedDataset_exists (traced file_dataset) (wrapper_of (Some (PyInt 1), []) (Some (PyInt 1)))
     = (Inr True, wrapper_of (Some (PyInt 1), []) (Some (PyInt 1))) \<and>
   CachedDataset_exists (traced file_dataset) (wrapper_of (Some (PyInt 1), []) None)
     = (Inr True, wrapper_of (Some (PyInt 1), [CallExists]) None) \<and>
   CachedDataset_exists (traced file_dataset) (wrapper_of (None, []) None)
     = (Inr False, wrapper_of (None, [CallExists]) None)"
  using exists_cache_or_delegate
      [where self = "wrapper_of (None, []) (Some (PyInt 1))" and D = file_dataset
         and d = None and t = "[]"]
    exists_cache_or_delegate
      [where self = "wrapper_of (Some (PyInt 1), []) (Some (PyInt 1))" and D = file_dataset
         and d = "Some (PyInt 1)" and t = "[]"]
    exists_cache_or_delegate
      [where self = "wrapper_of (Some (PyInt 1), []) None" and D = file_dataset
         and d = "Some (PyInt 1)" and t = "[]"]
    exists_cache_or_delegate
      [where self = "wrapper_of (None, []) None" and D = file_dataset
         and d = None and t = "[]"]
  by (simp add: wrapper_of_def file_dataset_simps MemoryDataset_exists_def)

section \<open>Release and transfer\<close>

text \<open>
  C7. \<^verbatim>\<open>release\<close> empties the cache body, whatever it held and whatever the delegate's
  \<^verbatim>\<open>release\<close> does afterwards, and makes one call on the delegate, \<^verbatim>\<open>release\<close>: the
  delegate's state is what that call leaves and nothing is saved to it. The cache body
  then reports no data, and a load that follows always calls the delegate's \<^verbatim>\<open>load\<close>:
  it raises what the delegate raises, or, given a value \<open>v\<close>, saves it into the cache
  body and returns \<open>v\<close> with \<open>v\<close> cached, or raises what the cache body raises when
  it refuses \<open>v\<close>.
\<close>

theorem release_clears_cache_keeps_delegate_data:
  "dataset self = (d, t) \<Longrightarrow>
   CachedDataset_release (traced D) self
     = (fst (ds_release D d),
        self\<lparr>cache := (cache self)\<lparr>data := None\<rparr>,
             dataset := (snd (ds_release D d), t @ [CallRelease])\<rparr>) \<and>
   \<not> MemoryDataset_exists (cache (snd (CachedDataset_release (traced D) self))) \<and>
   CachedDataset_load R (traced D) (snd (CachedDataset_release (traced D) self))
     = (case ds_load D (snd (ds_release D d)) of
          (Inl e, d') \<Rightarrow>
            (Inl e, self\<lparr>cache := (cache self)\<lparr>data := None\<rparr>,
                         dataset := (d', t @ [CallRelease, CallLoad])\<rparr>)
        | (Inr v, d') \<Rightarrow>
            (case R (copy_mode (cache self)) v of
               Some e \<Rightarrow>
                 (Inl e, self\<lparr>cache := (cache self)\<lparr>data := None\<rparr>,
                              dataset := (d', t @ [CallRelease, CallLoad])\<rparr>)
             | None \<Rightarrow>
                 (Inr v, self\<lparr>cache := (cache self)\<lparr>data := Some v\<rparr>,
                              dataset := (d', t @ [CallRelease, CallLoad])\<rparr>))) \<and>
   snd (dataset (snd (CachedDataset_load R (traced D)
                        (snd (CachedDataset_release (traced D) self)))))
     = t @ [CallRelease, CallLoad]"
proof -
  assume parts: "dataset self = (d, t)"
  let ?after = "snd (CachedDataset_release (traced D) self)"
  from parts
  have released: "CachedDataset_release (traced D) self
     = (fst (ds_release D d),
        self\<lparr>cache := (cache self)\<lparr>data := None\<rparr>,
             dataset := (snd (ds_release D d), t @ [CallRelease])\<rparr>)"
    by (simp add: release_eq traced_simps)
  then have empty: "data (cache ?after) = None"
    by simp
  from released
  have reload: "CachedDataset_load R (traced D) ?after
     = (case ds_load D (snd (ds_release D d)) of
          (Inl e, d') \<Rightarrow>
            (Inl e, self\<lparr>cache := (cache self)\<lparr>data := None\<rparr>,
                         dataset := (d', t @ [CallRelease, CallLoad])\<rparr>)
        | (Inr v, d') \<Rightarrow>
            (case R (copy_mode (cache self)) v of
               Some e \<Rightarrow>
                 (Inl e, self\<lparr>cache := (cache self)\<lparr>data := None\<rparr>,
                              dataset := (d', t @ [CallRelease, CallLoad])\<rparr>)
             | None \<Rightarrow>
                 (Inr v, self\<lparr>cache := (cache self)\<lparr>data := Some v\<rparr>,
                              dataset := (d', t @ [CallRelease, CallLoad])\<rparr>)))"
    by (simp add: load_miss traced_simps split: prod.splits sum.splits option.splits)
  then have journal: "snd (dataset (snd (CachedDataset_load R (traced D) ?after)))
                        = t @ [CallRelease, CallLoad]"
    by (simp split: prod.splits sum.splits option.splits)
  from released empty reload journal show ?thesis
    by (simp add: MemoryDataset_exists_def)
qed

theorem release_clears_cache_keeps_delegate_data_witness:
  "CachedDataset_release (traced file_dataset)
       (wrapper_of (Some (PyInt 2), []) (Some (PyInt 1)))
     = (Inr (), wrapper_of (Some (PyInt 2), [CallRelease]) None) \<and>
   CachedDataset_load store_policy (traced file_dataset)
       (wrapper_of (Some (PyInt 2), [CallRelease]) None)
     = (Inr (PyInt 2), wrapper_of (Some (PyInt 2), [CallRelease, CallLoad]) (Some (PyInt 2)))"
  using release_clears_cache_keeps_delegate_data
      [where self = "wrapper_of (Some (PyInt 2), []) (Some (PyInt 1))" and D = file_dataset
         and R = store_policy and d = "Some (PyInt 2)" and t = "[]"]
  by (auto simp add: wrapper_of_def file_dataset_simps store_policy_simps)

text \<open>
  C6 as stated does not hold: the hook does not ask the delegate to release. On a wrapper
  over a journalled file, \<^verbatim>\<open>__getstate__\<close> leaves the journal empty, while \<^verbatim>\<open>release\<close>
  records the delegate's \<^verbatim>\<open>release\<close>.
\<close>

theorem getstate_skips_delegate_release_counterexample:
  "snd (dataset (fst (CachedDataset_getstate (\<lambda>w. ''CachedDataset()'')
          (wrapper_of (Some (PyInt 1), []) (Some (PyInt 1))) []))) = [] \<and>
   snd (dataset (snd (CachedDataset_release (traced file_dataset)
          (wrapper_of (Some (PyInt 1), []) (Some (PyInt 1)))))) = [CallRelease]"
  by (simp add: CachedDataset_getstate_def release_eq traced_simps wrapper_of_def Let_def)

text \<open>
  C6, amended. The hook logs one warning, the wrapper's printed form followed by
  ": clearing cache to pickle.", then asks the cache body alone to release, and returns
  the wrapper's attributes. The cache body is then the one \<^verbatim>\<open>release\<close> would leave
  and reports no data; the delegate is not called and its state is the one from before.
\<close>

theorem getstate_clears_cache_only:
  "CachedDataset_getstate to_str self lg
     = (self\<lparr>cache := (cache self)\<lparr>data := None\<rparr>\<rparr>,
        self\<lparr>cache := (cache self)\<lparr>data := None\<rparr>\<rparr>,
        lg @ [(WARNING, to_str self @ '': clearing cache to pickle.'')]) \<and>
   \<not> MemoryDataset_exists (cache (fst (CachedDataset_getstate to_str self lg))) \<and>
   dataset (fst (CachedDataset_getstate to_str self lg)) = dataset self \<and>
   cache (fst (CachedDataset_getstate to_str self lg))
     = cache (snd (CachedDataset_release D self))"
  by (simp add: CachedDataset_getstate_def release_eq mem_defs Let_def)

end
